theory Spec2Isabelle
  imports Main "HOL-Library.Char_ord" "HOL-Library.List_Lexorder"
begin

section \<open>The JSON notifier callback (plugins/callback/json_notifier.py)\<close>

text \<open>
  A shallow embedding of the callback plugin. The plugin's collaborators are not part of
  the repository and are taken as parameters (record \<open>env\<close>): the JSON encoder, the HTTP
  client \<open>open_url\<close>, the UTC wall clock and the option lookup. Everything the plugin does
  to the outside is recorded in the record \<open>world\<close>: the arguments of every encoder call,
  of every \<open>debug\<close> and \<open>warning\<close> call of the display and of every \<open>open_url\<close> call, the
  number of clock readings, and the store that holds the engine's result payloads.
\<close>

subsection \<open>Values, dictionaries, exceptions\<close>

text \<open>
  Python values that travel in an envelope. \<open>JObj\<close> is an engine-native object that only
  the encoder knows how to render. A dictionary keeps its insertion order, so it is an
  association list with distinct keys.
\<close>

datatype jval =
    JNone
  | JBool bool
  | JInt int
  | JStr string
  | JList "jval list"
  | JDict "(string \<times> jval) list"
  | JObj string

type_synonym dict = "(string \<times> jval) list"

text \<open>\<open>d[k] = v\<close>: an existing key keeps its position, a new key goes last.\<close>

fun dict_set :: "dict \<Rightarrow> string \<Rightarrow> jval \<Rightarrow> dict" where
  "dict_set [] k v = [(k, v)]"
| "dict_set ((k', v') # d) k v =
     (if k' = k then (k, v) # d else (k', v') # dict_set d k v)"

text \<open>\<open>d.update(other)\<close>: every item of \<open>other\<close> is stored, in order.\<close>

fun dict_update :: "dict \<Rightarrow> dict \<Rightarrow> dict" where
  "dict_update d [] = d"
| "dict_update d ((k, v) # other) = dict_update (dict_set d k v) other"

definition keys :: "dict \<Rightarrow> string list" where
  "keys d = map fst d"

text \<open>
  An instance of Python's \<open>Exception\<close>, with its text (what \<open>to_text\<close> makes of it).
  \<open>except Exception\<close> catches exactly these.
\<close>

datatype exc = Exception string

fun to_text_exc :: "exc \<Rightarrow> string" where
  "to_text_exc (Exception m) = m"

text \<open>\<open>to_text\<close> of a value that is text already (a uuid) returns it as it is.\<close>

definition to_text :: "string \<Rightarrow> string" where
  "to_text s = s"

subsection \<open>The clock and \<open>current_time\<close>\<close>

record datetime =
  year :: nat
  month :: nat
  day :: nat
  hour :: nat
  minute :: nat
  second :: nat
  microsecond :: nat

text \<open>The decimal digits of a number, and \<open>"%0wd" % n\<close>.\<close>

definition digit :: "nat \<Rightarrow> char" where
  "digit n = ''0123456789'' ! (n mod 10)"

fun dec :: "nat \<Rightarrow> string" where
  "dec n = (if n < 10 then [digit n] else dec (n div 10) @ [digit n])"

definition fmt0 :: "nat \<Rightarrow> nat \<Rightarrow> string" where
  "fmt0 w n = replicate (w - length (dec n)) CHR ''0'' @ dec n"

text \<open>
  \<open>datetime.isoformat()\<close> of a naive datetime: \<open>YYYY-MM-DDTHH:MM:SS\<close>, followed by
  \<open>.ffffff\<close> when the microsecond is not 0.
\<close>

definition isoformat :: "datetime \<Rightarrow> string" where
  "isoformat d =
     fmt0 4 (year d) @ ''-'' @ fmt0 2 (month d) @ ''-'' @ fmt0 2 (day d) @ ''T'' @
     fmt0 2 (hour d) @ '':'' @ fmt0 2 (minute d) @ '':'' @ fmt0 2 (second d) @
     (if microsecond d = 0 then [] else ''.'' @ fmt0 6 (microsecond d))"

subsection \<open>The engine's objects\<close>

record host =
  host_name :: string

record task =
  task_uuid :: string
  task_path :: string
  task_name :: string
  task_action :: string
  notified_hosts :: "host list"

record play =
  play_uuid :: string
  play_name :: string

text \<open>A task result: \<open>_host\<close>, \<open>_task\<close> and \<open>_result\<close>, a reference to a dictionary in the store.\<close>

record task_result =
  r_host :: host
  r_task :: task
  r_result :: nat

text \<open>The aggregated statistics: the dictionary \<open>processed\<close> and the method \<open>summarize\<close>.\<close>

record stats =
  processed :: dict
  summarize :: "string \<Rightarrow> jval"

subsection \<open>Collaborators, the world, the plugin's own state\<close>

type_synonym headers = "(string \<times> string) list"

text \<open>
  \<open>json_dumps\<close> is \<open>json.dumps(msg, cls=AnsibleJSONEncoder)\<close>: the text, or the exception it
  raises. \<open>open_url n url data headers\<close> is the \<open>n\<close>-th call of the HTTP client: it raises,
  or returns a response whose \<open>read()\<close> raises or returns the body. \<open>utcnow n\<close> is the
  \<open>n\<close>-th reading of the wall clock. \<open>base_set_options\<close> is the call of the base class's
  \<open>set_options\<close>, which loads the options: it returns, or raises (as it does where the
  configuration rejects a required option that is not set). \<open>get_option\<close> is the option
  lookup of the base class.
\<close>

record env =
  json_dumps :: "dict \<Rightarrow> exc + string"
  open_url :: "nat \<Rightarrow> string option \<Rightarrow> string \<Rightarrow> headers \<Rightarrow> exc + (exc + string)"
  utcnow :: "nat \<Rightarrow> datetime"
  base_set_options :: "exc + unit"
  get_option :: "string \<Rightarrow> string option"

record world =
  ticks :: nat
  encoded :: "dict list"
  debugs :: "string option list"
  warnings :: "string list"
  opened :: "(string option \<times> string \<times> headers) list"
  heap :: "nat \<Rightarrow> dict"
  next_addr :: nat

text \<open>The fields of the callback object: \<open>_last_play\<close>, \<open>_callback_url\<close>, \<open>disabled\<close>.\<close>

record callback =
  last_play :: "string option"
  callback_url :: "string option"
  disabled :: bool

text \<open>\<open>__init__\<close>; the base class leaves \<open>disabled\<close> unset, which the engine reads as false.\<close>

definition init :: callback where
  "init = \<lparr>last_play = None, callback_url = None, disabled = False\<rparr>"

definition display_debug :: "string option \<Rightarrow> world \<Rightarrow> world" where
  "display_debug m w = w\<lparr>debugs := debugs w @ [m]\<rparr>"

definition display_warning :: "string \<Rightarrow> world \<Rightarrow> world" where
  "display_warning m w = w\<lparr>warnings := warnings w @ [m]\<rparr>"

definition current_time :: "env \<Rightarrow> world \<Rightarrow> string \<times> world" where
  "current_time e w = (isoformat (utcnow e (ticks w)) @ ''Z'', w\<lparr>ticks := Suc (ticks w)\<rparr>)"

text \<open>An optional string as a value of an envelope.\<close>

fun opt_str :: "string option \<Rightarrow> jval" where
  "opt_str None = JNone"
| "opt_str (Some s) = JStr s"

subsection \<open>\<open>set_options\<close> and \<open>send_msg\<close>\<close>

text \<open>
  \<open>set_options\<close>: the base class's \<open>set_options\<close> is called first, and an exception of it
  leaves the method before anything else is done.
\<close>

definition set_options ::
  "env \<Rightarrow> callback \<Rightarrow> world \<Rightarrow> (exc + unit) \<times> callback \<times> world" where
  "set_options e st w =
     (case base_set_options e of
        Inl x \<Rightarrow> (Inl x, st, w)
      | Inr _ \<Rightarrow>
          (let st1 = st\<lparr>callback_url := get_option e ''json_webhook_url''\<rparr> in
           if callback_url st1 = None
           then (Inr (), st1\<lparr>disabled := True\<rparr>,
                 display_warning
                   (''JSON Webhook URL was not provided. The '' @
                    ''JSON Webhook URL can be provided using '' @
                    ''the `JSON_WEBHOOK_URL` environment '' @
                    ''variable.'') w)
           else (Inr (), st1, w)))"

text \<open>
  \<open>send_msg\<close>: the encoder runs first, outside the \<open>try\<close>; an exception of \<open>open_url\<close> or of
  \<open>response.read()\<close> is caught and becomes a warning, and the method then returns \<open>None\<close>.
\<close>

definition send_msg :: "env \<Rightarrow> callback \<Rightarrow> world \<Rightarrow> dict \<Rightarrow> (exc + string option) \<times> world" where
  "send_msg e st w msg =
     (let hdrs = [(''Content-type'', ''application/json'')];
          w0 = w\<lparr>encoded := encoded w @ [msg]\<rparr> in
      case json_dumps e msg of
        Inl x \<Rightarrow> (Inl x, w0)
      | Inr data \<Rightarrow>
          (let w1 = display_debug (Some data) w0;
               w2 = display_debug (callback_url st) w1;
               w3 = w2\<lparr>opened := opened w2 @ [(callback_url st, data, hdrs)]\<rparr> in
           case open_url e (length (opened w2)) (callback_url st) data hdrs of
             Inl x \<Rightarrow>
               (Inr None,
                display_warning (''Could not submit message to webhook: '' @ to_text_exc x) w3)
           | Inr response \<Rightarrow>
               (case response of
                  Inl x \<Rightarrow>
                    (Inr None,
                     display_warning (''Could not submit message to webhook: '' @ to_text_exc x) w3)
                | Inr body \<Rightarrow> (Inr (Some body), w3))))"

text \<open>A handler ignores what \<open>send_msg\<close> returns; an exception goes on to its caller.\<close>

definition finish :: "callback \<Rightarrow> (exc + string option) \<times> world \<Rightarrow> (exc + unit) \<times> callback \<times> world" where
  "finish st r = (case r of (Inl x, w) \<Rightarrow> (Inl x, st, w) | (Inr _, w) \<Rightarrow> (Inr (), st, w))"

subsection \<open>The handlers\<close>

definition v2_playbook_on_play_start ::
  "env \<Rightarrow> play \<Rightarrow> callback \<Rightarrow> world \<Rightarrow> (exc + unit) \<times> callback \<times> world" where
  "v2_playbook_on_play_start e p st w =
     (let st1 = st\<lparr>last_play := Some (to_text (play_uuid p))\<rparr>;
          (now, w1) = current_time e w;
          event = [(''type'', JStr ''play_start''),
                   (''id'', JStr (to_text (play_uuid p))),
                   (''start'', JStr now),
                   (''name'', JStr (play_name p))]
      in finish st1 (send_msg e st1 w1 event))"

definition v2_runner_on_start ::
  "env \<Rightarrow> host \<Rightarrow> task \<Rightarrow> callback \<Rightarrow> world \<Rightarrow> (exc + unit) \<times> callback \<times> world" where
  "v2_runner_on_start e h t st w =
     (let (now, w1) = current_time e w;
          event = [(''type'', JStr ''task_host_start''),
                   (''play'', opt_str (last_play st)),
                   (''id'', JStr (to_text (task_uuid t))),
                   (''path'', JStr (task_path t)),
                   (''name'', JStr (task_name t)),
                   (''start'', JStr now),
                   (''host'', JStr (host_name h))]
      in finish st (send_msg e st w1 event))"

definition v2_playbook_on_task_start ::
  "env \<Rightarrow> task \<Rightarrow> bool \<Rightarrow> callback \<Rightarrow> world \<Rightarrow> (exc + unit) \<times> callback \<times> world" where
  "v2_playbook_on_task_start e t is_conditional st w =
     (let (now, w1) = current_time e w;
          event = [(''type'', JStr ''task_start''),
                   (''play'', opt_str (last_play st)),
                   (''id'', JStr (to_text (task_uuid t))),
                   (''path'', JStr (task_path t)),
                   (''name'', JStr (task_name t)),
                   (''start'', JStr now)]
      in finish st (send_msg e st w1 event))"

definition v2_playbook_on_handler_task_start ::
  "env \<Rightarrow> task \<Rightarrow> callback \<Rightarrow> world \<Rightarrow> (exc + unit) \<times> callback \<times> world" where
  "v2_playbook_on_handler_task_start e t st w =
     (let (now, w1) = current_time e w;
          event = [(''type'', JStr ''task__handler_start''),
                   (''play'', opt_str (last_play st)),
                   (''id'', JStr (to_text (task_uuid t))),
                   (''path'', JStr (task_path t)),
                   (''name'', JStr (task_name t)),
                   (''start'', JStr now),
                   (''notified_host'', JList (map (\<lambda>h. JStr (host_name h)) (notified_hosts t)))]
      in finish st (send_msg e st w1 event))"

text \<open>The loop of \<open>v2_playbook_on_stats\<close>: \<open>for h in hosts: summary[h] = stats.summarize(h)\<close>.\<close>

fun summary_loop :: "stats \<Rightarrow> string list \<Rightarrow> dict \<Rightarrow> dict" where
  "summary_loop s [] summary = summary"
| "summary_loop s (h # hosts) summary = summary_loop s hosts (dict_set summary h (summarize s h))"

definition v2_playbook_on_stats ::
  "env \<Rightarrow> stats \<Rightarrow> callback \<Rightarrow> world \<Rightarrow> (exc + unit) \<times> callback \<times> world" where
  "v2_playbook_on_stats e s st w =
     (let hosts = sort (keys (processed s));
          summary = summary_loop s hosts [];
          (now, w1) = current_time e w;
          event = [(''type'', JStr ''playbook_end''),
                   (''end'', JStr now),
                   (''result'', JDict summary)]
      in finish st (send_msg e st w1 event))"

text \<open>
  \<open>_record_task_result\<close>. \<open>result._result.copy()\<close> allocates a new dictionary in the store;
  \<open>update\<close> and the assignment of \<open>action\<close> write to that new object. The envelope refers to
  the copy, which nothing changes between here and the encoder call, so the envelope is
  given the copy's content.
\<close>

definition dict_copy :: "nat \<Rightarrow> world \<Rightarrow> nat \<times> world" where
  "dict_copy a w =
     (next_addr w, w\<lparr>heap := (heap w)(next_addr w := heap w a), next_addr := Suc (next_addr w)\<rparr>)"

definition record_task_result ::
  "env \<Rightarrow> dict \<Rightarrow> task_result \<Rightarrow> callback \<Rightarrow> world \<Rightarrow> (exc + unit) \<times> callback \<times> world" where
  "record_task_result e on_info r st w =
     (let h = r_host r;
          t = r_task r;
          (result_copy, w1) = dict_copy (r_result r) w;
          w2 = w1\<lparr>heap := (heap w1)(result_copy := dict_update (heap w1 result_copy) on_info)\<rparr>;
          w3 = w2\<lparr>heap := (heap w2)(result_copy :=
                  dict_set (heap w2 result_copy) ''action'' (JStr (task_action t)))\<rparr>;
          (now, w4) = current_time e w3;
          event = [(''type'', JStr ''task_host_end''),
                   (''play'', opt_str (last_play st)),
                   (''id'', JStr (to_text (task_uuid t))),
                   (''path'', JStr (task_path t)),
                   (''name'', JStr (task_name t)),
                   (''end'', JStr now),
                   (''host'', JStr (host_name h)),
                   (''result'', JDict (heap w4 result_copy))]
      in finish st (send_msg e st w4 event))"

subsection \<open>\<open>__getattribute__\<close>\<close>

text \<open>\<open>name.rsplit("_", 1)\<close>: split once, at the last underscore.\<close>

definition rsplit1 :: "char \<Rightarrow> string \<Rightarrow> string list" where
  "rsplit1 c s =
     (if c \<in> set s
      then [rev (tl (dropWhile (\<lambda>x. x \<noteq> c) (rev s))), rev (takeWhile (\<lambda>x. x \<noteq> c) (rev s))]
      else [s])"

text \<open>
  What an attribute lookup gives: the partial application of \<open>_record_task_result\<close> to a
  dictionary of flags, or the ordinary attribute of that name.
\<close>

datatype attr = Partial_record_task_result dict | Object_attribute string

definition getattribute :: "string \<Rightarrow> exc + attr" where
  "getattribute name =
     (if name \<notin> set [''v2_runner_on_ok'', ''v2_runner_on_failed'',
                      ''v2_runner_on_unreachable'', ''v2_runner_on_skipped'']
      then Inr (Object_attribute name)
      else (case rsplit1 CHR ''_'' name of
              [_, on] \<Rightarrow>
                (let on_info = [];
                     on_info = (if on \<in> set [''failed'', ''skipped'', ''ok'']
                                then dict_set on_info on (JBool True) else on_info)
                 in Inr (Partial_record_task_result on_info))
            | _ \<Rightarrow> Inl (Exception ''list index out of range'')))"

text \<open>
  Calling, with a task result, the attribute that the lookup of \<open>name\<close> gives: the partial
  application is applied to the result. The engine calls with a task result only the four
  names that the lookup answers with a partial application (lemmas \<open>getattribute_ok\<close> to
  \<open>getattribute_unreachable\<close>); an ordinary attribute is another handler, with other
  arguments, and calling it this way is answered here with an exception.
\<close>

definition call_with_result ::
  "env \<Rightarrow> string \<Rightarrow> task_result \<Rightarrow> callback \<Rightarrow> world \<Rightarrow> (exc + unit) \<times> callback \<times> world" where
  "call_with_result e name r st w =
     (case getattribute name of
        Inl x \<Rightarrow> (Inl x, st, w)
      | Inr (Partial_record_task_result on_info) \<Rightarrow> record_task_result e on_info r st w
      | Inr (Object_attribute n) \<Rightarrow> (Inl (Exception (''not a completion handler: '' @ n)), st, w))"

definition v2_runner_on_ok ::
  "env \<Rightarrow> task_result \<Rightarrow> callback \<Rightarrow> world \<Rightarrow> (exc + unit) \<times> callback \<times> world" where
  "v2_runner_on_ok e = call_with_result e ''v2_runner_on_ok''"

definition v2_runner_on_failed ::
  "env \<Rightarrow> task_result \<Rightarrow> callback \<Rightarrow> world \<Rightarrow> (exc + unit) \<times> callback \<times> world" where
  "v2_runner_on_failed e = call_with_result e ''v2_runner_on_failed''"

definition v2_runner_on_unreachable ::
  "env \<Rightarrow> task_result \<Rightarrow> callback \<Rightarrow> world \<Rightarrow> (exc + unit) \<times> callback \<times> world" where
  "v2_runner_on_unreachable e = call_with_result e ''v2_runner_on_unreachable''"

definition v2_runner_on_skipped ::
  "env \<Rightarrow> task_result \<Rightarrow> callback \<Rightarrow> world \<Rightarrow> (exc + unit) \<times> callback \<times> world" where
  "v2_runner_on_skipped e = call_with_result e ''v2_runner_on_skipped''"

subsection \<open>The engine's notifications, one after the other\<close>

datatype notification =
    Play_start play
  | Runner_start host task
  | Task_start task bool
  | Handler_task_start task
  | Stats stats
  | Runner_ok task_result
  | Runner_failed task_result
  | Runner_unreachable task_result
  | Runner_skipped task_result

fun notify ::
  "env \<Rightarrow> notification \<Rightarrow> callback \<Rightarrow> world \<Rightarrow> (exc + unit) \<times> callback \<times> world" where
  "notify e (Play_start p) st w = v2_playbook_on_play_start e p st w"
| "notify e (Runner_start h t) st w = v2_runner_on_start e h t st w"
| "notify e (Task_start t c) st w = v2_playbook_on_task_start e t c st w"
| "notify e (Handler_task_start t) st w = v2_playbook_on_handler_task_start e t st w"
| "notify e (Stats s) st w = v2_playbook_on_stats e s st w"
| "notify e (Runner_ok r) st w = v2_runner_on_ok e r st w"
| "notify e (Runner_failed r) st w = v2_runner_on_failed e r st w"
| "notify e (Runner_unreachable r) st w = v2_runner_on_unreachable e r st w"
| "notify e (Runner_skipped r) st w = v2_runner_on_skipped e r st w"

text \<open>Notifications on one thread: each handler returns before the next is called, and an
  exception that leaves a handler ends the sequence.\<close>

fun run ::
  "env \<Rightarrow> notification list \<Rightarrow> callback \<Rightarrow> world \<Rightarrow> (exc + unit) \<times> callback \<times> world" where
  "run e [] st w = (Inr (), st, w)"
| "run e (n # ns) st w =
     (case notify e n st w of
        (Inl x, st', w') \<Rightarrow> (Inl x, st', w')
      | (Inr _, st', w') \<Rightarrow> run e ns st' w')"

subsection \<open>The engine's dispatcher\<close>

text \<open>
  The engine's dispatcher (\<open>send_callback\<close> of its task queue manager) is not part of the
  repository. It is modelled as the plugin relies on it: a callback plugin whose \<open>disabled\<close>
  attribute is true is left out, and otherwise the handler of the notification is called.
  Setting that attribute is all that \<open>set_options\<close> does to switch the plugin off.
\<close>

definition send_callback ::
  "env \<Rightarrow> notification \<Rightarrow> callback \<Rightarrow> world \<Rightarrow> (exc + unit) \<times> callback \<times> world" where
  "send_callback e n st w = (if disabled st then (Inr (), st, w) else notify e n st w)"


section \<open>The notions of the specification\<close>

subsection \<open>The four completion handlers, written out\<close>

text \<open>
  The specification's own reading of the completion handlers: a table from the outcome's
  name to the flags it merges (nothing for \<open>unreachable\<close>, the name set to true otherwise),
  and one function per outcome that hands its flags to the shared builder.
\<close>

definition outcome_flags :: "string \<Rightarrow> dict" where
  "outcome_flags on = (if on = ''unreachable'' then [] else [(on, JBool True)])"

definition explicit_runner_on ::
  "env \<Rightarrow> string \<Rightarrow> task_result \<Rightarrow> callback \<Rightarrow> world \<Rightarrow> (exc + unit) \<times> callback \<times> world" where
  "explicit_runner_on e on = record_task_result e (outcome_flags on)"

subsection \<open>Timestamps\<close>

text \<open>The pattern \<open>YYYY-MM-DDTHH:MM:SS(.ffffff)?Z\<close>, position by position.\<close>

datatype pat = Digit | Lit char

fun matches_pat :: "pat \<Rightarrow> char \<Rightarrow> bool" where
  "matches_pat Digit c = (c \<in> set ''0123456789'')"
| "matches_pat (Lit a) c = (a = c)"

definition seconds_pattern :: "pat list" where
  "seconds_pattern =
     [Digit, Digit, Digit, Digit, Lit CHR ''-'', Digit, Digit, Lit CHR ''-'', Digit, Digit,
      Lit CHR ''T'', Digit, Digit, Lit CHR '':'', Digit, Digit, Lit CHR '':'', Digit, Digit]"

definition fraction_pattern :: "pat list" where
  "fraction_pattern = [Lit CHR ''.'', Digit, Digit, Digit, Digit, Digit, Digit]"

definition timestamp_pattern :: "string \<Rightarrow> bool" where
  "timestamp_pattern s =
     (list_all2 matches_pat (seconds_pattern @ [Lit CHR ''Z'']) s \<or>
      list_all2 matches_pat (seconds_pattern @ fraction_pattern @ [Lit CHR ''Z'']) s)"

text \<open>What a datetime object holds by construction.\<close>

definition valid_datetime :: "datetime \<Rightarrow> bool" where
  "valid_datetime d =
     (1 \<le> year d \<and> year d \<le> 9999 \<and> 1 \<le> month d \<and> month d \<le> 12 \<and>
      1 \<le> day d \<and> day d \<le> 31 \<and> hour d < 24 \<and> minute d < 60 \<and> second d < 60 \<and>
      microsecond d < 1000000)"

text \<open>
  The instant of a datetime and the instant a timestamp denotes, both as the list of the
  seven fields from the year down to the microsecond; lists are compared lexicographically.
\<close>

definition datetime_fields :: "datetime \<Rightarrow> nat list" where
  "datetime_fields d = [year d, month d, day d, hour d, minute d, second d, microsecond d]"

definition digit_val :: "char \<Rightarrow> nat" where
  "digit_val c = of_char c - 48"

definition undec :: "string \<Rightarrow> nat" where
  "undec s = foldl (\<lambda>a c. 10 * a + digit_val c) 0 s"

definition timestamp_fields :: "string \<Rightarrow> nat list" where
  "timestamp_fields s =
     [undec (take 4 s), undec (take 2 (drop 5 s)), undec (take 2 (drop 8 s)),
      undec (take 2 (drop 11 s)), undec (take 2 (drop 14 s)), undec (take 2 (drop 17 s)),
      (if 20 < length s then undec (take 6 (drop 20 s)) else 0)]"

text \<open>The timestamp of an envelope: its \<open>start\<close> field, or else its \<open>end\<close> field.\<close>

definition timestamp_of :: "dict \<Rightarrow> string" where
  "timestamp_of ev =
     (case map_of ev ''start'' of
        Some (JStr s) \<Rightarrow> s
      | Some _ \<Rightarrow> []
      | None \<Rightarrow> (case map_of ev ''end'' of Some (JStr s) \<Rightarrow> s | _ \<Rightarrow> []))"

subsection \<open>Observing what a handler did\<close>

text \<open>The envelope a handler handed to the encoder last, and the \<open>result\<close> mapping of an envelope.\<close>

definition last_envelope :: "(exc + unit) \<times> callback \<times> world \<Rightarrow> dict" where
  "last_envelope out = last (encoded (snd (snd out)))"

definition envelope_result :: "dict \<Rightarrow> dict option" where
  "envelope_result ev = (case map_of ev ''result'' of Some (JDict d) \<Rightarrow> Some d | _ \<Rightarrow> None)"

text \<open>The envelopes that were handed to the encoder since the world \<open>w\<close>.\<close>

definition new_envelopes :: "world \<Rightarrow> (exc + unit) \<times> callback \<times> world \<Rightarrow> dict list" where
  "new_envelopes w out = drop (length (encoded w)) (encoded (snd (snd out)))"

text \<open>The timestamps of those envelopes, and the clock readings taken since \<open>w\<close>.\<close>

definition timestamps :: "world \<Rightarrow> (exc + unit) \<times> callback \<times> world \<Rightarrow> string list" where
  "timestamps w out = map timestamp_of (new_envelopes w out)"

definition readings :: "env \<Rightarrow> world \<Rightarrow> (exc + unit) \<times> callback \<times> world \<Rightarrow> datetime list" where
  "readings e w out = map (utcnow e) [ticks w ..< ticks (snd (snd out))]"

text \<open>The task result of a completion notification.\<close>

fun completion_of :: "notification \<Rightarrow> task_result option" where
  "completion_of (Runner_ok r) = Some r"
| "completion_of (Runner_failed r) = Some r"
| "completion_of (Runner_unreachable r) = Some r"
| "completion_of (Runner_skipped r) = Some r"
| "completion_of n = None"

subsection \<open>The current play along a sequence of notifications\<close>

text \<open>The identifier of the most recently started play, after one notification and after a
  sequence of them.\<close>

fun started :: "string option \<Rightarrow> notification \<Rightarrow> string option" where
  "started cur (Play_start p) = Some (play_uuid p)"
| "started cur n = cur"

definition current_play :: "string option \<Rightarrow> notification list \<Rightarrow> string option" where
  "current_play cur ns = foldl started cur ns"

text \<open>
  The \<open>play\<close> field that an envelope is to carry: none for a play start and for the end of
  the run, the most recently started play for the task notifications.
\<close>

fun play_field :: "string option \<Rightarrow> notification \<Rightarrow> jval option" where
  "play_field cur (Play_start p) = None"
| "play_field cur (Stats s) = None"
| "play_field cur n = Some (opt_str cur)"

fun expected_play :: "string option \<Rightarrow> notification list \<Rightarrow> jval option list" where
  "expected_play cur [] = []"
| "expected_play cur (n # ns) = play_field cur n # expected_play (started cur n) ns"

section \<open>Concrete collaborators and objects\<close>

text \<open>
  A clock whose \<open>n\<close>-th reading is \<open>n\<close> microseconds after 2024-01-01 00:00:00, a clock that
  is set back by one second after its first reading, an encoder that renders everything as
  \<open>{}\<close> and one that renders nothing, an HTTP client that answers \<open>ok\<close> when it is given a
  URL and raises when it is given none, and one that always times out. In \<open>required_env\<close>
  the base class's \<open>set_options\<close> raises, as a configuration does that insists on the
  required option.
\<close>

definition ex_clock :: "nat \<Rightarrow> datetime" where
  "ex_clock n =
     \<lparr>year = 2024, month = 1, day = 1, hour = 0, minute = 0, second = 0, microsecond = n\<rparr>"

definition stepped_back_clock :: "nat \<Rightarrow> datetime" where
  "stepped_back_clock n =
     \<lparr>year = 2024, month = 1, day = 1, hour = 0, minute = 0,
      second = (if n = 0 then 1 else 0), microsecond = 0\<rparr>"

definition ex_open_url :: "nat \<Rightarrow> string option \<Rightarrow> string \<Rightarrow> headers \<Rightarrow> exc + (exc + string)" where
  "ex_open_url n url data hdrs =
     (case url of None \<Rightarrow> Inl (Exception ''unknown url type'') | Some u \<Rightarrow> Inr (Inr ''ok''))"

definition ex_env :: env where
  "ex_env =
     \<lparr>json_dumps = (\<lambda>m. Inr ''{}''), open_url = ex_open_url, utcnow = ex_clock,
      base_set_options = Inr (), get_option = (\<lambda>k. None)\<rparr>"

definition stepped_back_env :: env where
  "stepped_back_env =
     \<lparr>json_dumps = (\<lambda>m. Inr ''{}''), open_url = ex_open_url, utcnow = stepped_back_clock,
      base_set_options = Inr (), get_option = (\<lambda>k. None)\<rparr>"

definition unencodable_env :: env where
  "unencodable_env =
     \<lparr>json_dumps = (\<lambda>m. Inl (Exception ''Object is not JSON serializable'')),
      open_url = ex_open_url, utcnow = ex_clock, base_set_options = Inr (),
      get_option = (\<lambda>k. None)\<rparr>"

definition timeout_env :: env where
  "timeout_env =
     \<lparr>json_dumps = (\<lambda>m. Inr ''{}''),
      open_url = (\<lambda>n url data hdrs. Inl (Exception ''timed out'')),
      utcnow = ex_clock, base_set_options = Inr (),
      get_option = (\<lambda>k. Some ''http://hook'')\<rparr>"

definition required_env :: env where
  "required_env =
     \<lparr>json_dumps = (\<lambda>m. Inr ''{}''), open_url = ex_open_url, utcnow = ex_clock,
      base_set_options = Inl (Exception ''No setting was provided for required configuration''),
      get_option = (\<lambda>k. None)\<rparr>"

definition ex_world :: world where
  "ex_world =
     \<lparr>ticks = 0, encoded = [], debugs = [], warnings = [], opened = [],
      heap = (\<lambda>a. if a = 0 then [(''changed'', JBool False), (''rc'', JInt 0)] else []),
      next_addr = 1\<rparr>"

definition ex_callback :: callback where
  "ex_callback = \<lparr>last_play = None, callback_url = Some ''http://hook'', disabled = False\<rparr>"

definition ex_play :: play where
  "ex_play = \<lparr>play_uuid = ''abc-123'', play_name = ''deploy''\<rparr>"

definition ex_host :: host where
  "ex_host = \<lparr>host_name = ''web1''\<rparr>"

definition ex_task :: task where
  "ex_task =
     \<lparr>task_uuid = ''t1'', task_path = ''site.yml:3'', task_name = ''install'',
      task_action = ''command'', notified_hosts = [ex_host]\<rparr>"

definition ex_result :: task_result where
  "ex_result = \<lparr>r_host = ex_host, r_task = ex_task, r_result = 0\<rparr>"

definition ex_stats :: stats where
  "ex_stats =
     \<lparr>processed = [(''web2'', JInt 1), (''db'', JInt 1), (''web10'', JInt 1)],
      summarize = (\<lambda>h. JDict [(''ok'', JInt (int (length h)))])\<rparr>"

section \<open>Dictionaries\<close>

lemma map_of_dict_set: "map_of (dict_set d k v) = (map_of d)(k \<mapsto> v)"
  by (induction d) (auto simp: fun_eq_iff)

lemma keys_dict_set:
  "keys (dict_set d k v) = (if k \<in> set (keys d) then keys d else keys d @ [k])"
  by (induction d) (force simp: keys_def)+

lemma dict_set_new: "k \<notin> set (keys d) \<Longrightarrow> dict_set d k v = d @ [(k, v)]"
  by (induction d) (auto simp: keys_def)

lemma summary_loop_distinct:
  "distinct hs \<Longrightarrow> set hs \<inter> set (keys m) = {} \<Longrightarrow>
   summary_loop s hs m = m @ map (\<lambda>h. (h, summarize s h)) hs"
proof (induction hs arbitrary: m)
  case Nil
  then show ?case by simp
next
  case (Cons h hs)
  then have new: "h \<notin> set (keys m)" by auto
  have "set hs \<inter> set (keys (dict_set m h (summarize s h))) = {}"
    using Cons.prems new by (auto simp: keys_dict_set)
  then show ?case
    using Cons new by (simp add: dict_set_new)
qed

section \<open>Delivery\<close>

lemma send_msg_encoder_raises:
  "json_dumps e msg = Inl x \<Longrightarrow> send_msg e st w msg = (Inl x, w\<lparr>encoded := encoded w @ [msg]\<rparr>)"
  by (simp add: send_msg_def)

lemma send_msg_delivered:
  "json_dumps e msg = Inr data \<Longrightarrow>
   open_url e (length (opened w)) (callback_url st) data [(''Content-type'', ''application/json'')]
     = Inr (Inr body) \<Longrightarrow>
   send_msg e st w msg =
     (Inr (Some body),
      w\<lparr>encoded := encoded w @ [msg],
        debugs := debugs w @ [Some data, callback_url st],
        opened := opened w @ [(callback_url st, data, [(''Content-type'', ''application/json'')])]\<rparr>)"
  by (simp add: send_msg_def display_debug_def)

lemma send_msg_caught:
  "json_dumps e msg = Inr data \<Longrightarrow>
   open_url e (length (opened w)) (callback_url st) data [(''Content-type'', ''application/json'')]
     = Inl x \<or>
   open_url e (length (opened w)) (callback_url st) data [(''Content-type'', ''application/json'')]
     = Inr (Inl x) \<Longrightarrow>
   send_msg e st w msg =
     (Inr None,
      w\<lparr>encoded := encoded w @ [msg],
        debugs := debugs w @ [Some data, callback_url st],
        opened := opened w @ [(callback_url st, data, [(''Content-type'', ''application/json'')])],
        warnings := warnings w @ [''Could not submit message to webhook: '' @ to_text_exc x]\<rparr>)"
  by (auto simp add: send_msg_def display_debug_def display_warning_def)

lemma encoded_send: "encoded (snd (send_msg e st w ev)) = encoded w @ [ev]"
  by (simp add: send_msg_def display_debug_def display_warning_def Let_def split: sum.splits)

lemma ticks_send: "ticks (snd (send_msg e st w ev)) = ticks w"
  by (simp add: send_msg_def display_debug_def display_warning_def Let_def split: sum.splits)

lemma heap_send: "heap (snd (send_msg e st w ev)) = heap w"
  by (simp add: send_msg_def display_debug_def display_warning_def Let_def split: sum.splits)

lemma next_addr_send: "next_addr (snd (send_msg e st w ev)) = next_addr w"
  by (simp add: send_msg_def display_debug_def display_warning_def Let_def split: sum.splits)

lemma opened_send:
  "json_dumps e ev = Inr data \<Longrightarrow>
   opened (snd (send_msg e st w ev)) =
     opened w @ [(callback_url st, data, [(''Content-type'', ''application/json'')])]"
  by (simp add: send_msg_def display_debug_def display_warning_def Let_def split: sum.splits)

lemma warnings_send:
  "json_dumps e ev = Inr data \<Longrightarrow>
   warnings (snd (send_msg e st w ev)) =
     warnings w @
     (case open_url e (length (opened w)) (callback_url st) data
             [(''Content-type'', ''application/json'')] of
        Inl x \<Rightarrow> [''Could not submit message to webhook: '' @ to_text_exc x]
      | Inr (Inl x) \<Rightarrow> [''Could not submit message to webhook: '' @ to_text_exc x]
      | Inr (Inr body) \<Rightarrow> [])"
  by (simp add: send_msg_def display_debug_def display_warning_def Let_def split: sum.splits)

lemma finish_state: "fst (snd (finish st r)) = st"
  by (simp add: finish_def split: prod.splits sum.splits)

lemma finish_world: "snd (snd (finish st r)) = snd r"
  by (simp add: finish_def split: prod.splits sum.splits)

lemma finish_raises: "(fst (finish st r) = Inl x) = (fst r = Inl x)"
  by (simp add: finish_def split: prod.splits sum.splits)

section \<open>The handlers, unfolded\<close>

lemma play_start_unfold:
  "v2_playbook_on_play_start e p st w =
     finish (st\<lparr>last_play := Some (play_uuid p)\<rparr>)
       (send_msg e (st\<lparr>last_play := Some (play_uuid p)\<rparr>) (w\<lparr>ticks := Suc (ticks w)\<rparr>)
          [(''type'', JStr ''play_start''),
           (''id'', JStr (play_uuid p)),
           (''start'', JStr (isoformat (utcnow e (ticks w)) @ ''Z'')),
           (''name'', JStr (play_name p))])"
  by (simp add: v2_playbook_on_play_start_def current_time_def to_text_def Let_def)

lemma runner_start_unfold:
  "v2_runner_on_start e h t st w =
     finish st
       (send_msg e st (w\<lparr>ticks := Suc (ticks w)\<rparr>)
          [(''type'', JStr ''task_host_start''),
           (''play'', opt_str (last_play st)),
           (''id'', JStr (task_uuid t)),
           (''path'', JStr (task_path t)),
           (''name'', JStr (task_name t)),
           (''start'', JStr (isoformat (utcnow e (ticks w)) @ ''Z'')),
           (''host'', JStr (host_name h))])"
  by (simp add: v2_runner_on_start_def current_time_def to_text_def)

lemma task_start_unfold:
  "v2_playbook_on_task_start e t c st w =
     finish st
       (send_msg e st (w\<lparr>ticks := Suc (ticks w)\<rparr>)
          [(''type'', JStr ''task_start''),
           (''play'', opt_str (last_play st)),
           (''id'', JStr (task_uuid t)),
           (''path'', JStr (task_path t)),
           (''name'', JStr (task_name t)),
           (''start'', JStr (isoformat (utcnow e (ticks w)) @ ''Z''))])"
  by (simp add: v2_playbook_on_task_start_def current_time_def to_text_def)

lemma handler_task_start_unfold:
  "v2_playbook_on_handler_task_start e t st w =
     finish st
       (send_msg e st (w\<lparr>ticks := Suc (ticks w)\<rparr>)
          [(''type'', JStr ''task__handler_start''),
           (''play'', opt_str (last_play st)),
           (''id'', JStr (task_uuid t)),
           (''path'', JStr (task_path t)),
           (''name'', JStr (task_name t)),
           (''start'', JStr (isoformat (utcnow e (ticks w)) @ ''Z'')),
           (''notified_host'', JList (map (\<lambda>h. JStr (host_name h)) (notified_hosts t)))])"
  by (simp add: v2_playbook_on_handler_task_start_def current_time_def to_text_def)

lemma stats_unfold:
  "v2_playbook_on_stats e s st w =
     finish st
       (send_msg e st (w\<lparr>ticks := Suc (ticks w)\<rparr>)
          [(''type'', JStr ''playbook_end''),
           (''end'', JStr (isoformat (utcnow e (ticks w)) @ ''Z'')),
           (''result'', JDict (summary_loop s (sort (keys (processed s))) []))])"
  by (simp add: v2_playbook_on_stats_def current_time_def)

lemma record_task_result_unfold:
  "record_task_result e on_info r st w =
     finish st
       (send_msg e st
          (w\<lparr>next_addr := Suc (next_addr w),
             heap := (heap w)(next_addr w :=
                 dict_set (dict_update (heap w (r_result r)) on_info) ''action''
                   (JStr (task_action (r_task r)))),
             ticks := Suc (ticks w)\<rparr>)
          [(''type'', JStr ''task_host_end''),
           (''play'', opt_str (last_play st)),
           (''id'', JStr (task_uuid (r_task r))),
           (''path'', JStr (task_path (r_task r))),
           (''name'', JStr (task_name (r_task r))),
           (''end'', JStr (isoformat (utcnow e (ticks w)) @ ''Z'')),
           (''host'', JStr (host_name (r_host r))),
           (''result'', JDict (dict_set (dict_update (heap w (r_result r)) on_info) ''action''
                   (JStr (task_action (r_task r)))))])"
  by (simp add: record_task_result_def dict_copy_def current_time_def to_text_def Let_def)


lemma getattribute_ok:
  "getattribute ''v2_runner_on_ok'' = Inr (Partial_record_task_result [(''ok'', JBool True)])"
  by (simp add: getattribute_def rsplit1_def)

lemma getattribute_failed:
  "getattribute ''v2_runner_on_failed'' =
     Inr (Partial_record_task_result [(''failed'', JBool True)])"
  by (simp add: getattribute_def rsplit1_def)

lemma getattribute_skipped:
  "getattribute ''v2_runner_on_skipped'' =
     Inr (Partial_record_task_result [(''skipped'', JBool True)])"
  by (simp add: getattribute_def rsplit1_def)

lemma getattribute_unreachable:
  "getattribute ''v2_runner_on_unreachable'' = Inr (Partial_record_task_result [])"
  by (simp add: getattribute_def rsplit1_def)

lemma runner_on_ok_unfold:
  "v2_runner_on_ok e r st w = record_task_result e [(''ok'', JBool True)] r st w"
  by (simp add: v2_runner_on_ok_def call_with_result_def getattribute_ok)

lemma runner_on_failed_unfold:
  "v2_runner_on_failed e r st w = record_task_result e [(''failed'', JBool True)] r st w"
  by (simp add: v2_runner_on_failed_def call_with_result_def getattribute_failed)

lemma runner_on_skipped_unfold:
  "v2_runner_on_skipped e r st w = record_task_result e [(''skipped'', JBool True)] r st w"
  by (simp add: v2_runner_on_skipped_def call_with_result_def getattribute_skipped)

lemma runner_on_unreachable_unfold:
  "v2_runner_on_unreachable e r st w = record_task_result e [] r st w"
  by (simp add: v2_runner_on_unreachable_def call_with_result_def getattribute_unreachable)

lemmas handler_unfolds =
  play_start_unfold runner_start_unfold task_start_unfold handler_task_start_unfold
  stats_unfold runner_on_ok_unfold runner_on_failed_unfold runner_on_skipped_unfold
  runner_on_unreachable_unfold record_task_result_unfold

text \<open>Every handler: one clock reading, one envelope, one call of \<open>send_msg\<close>.\<close>

lemma notify_shape:
  "\<exists>st' w1 ev.
     notify e n st w = finish st' (send_msg e st' w1 ev) \<and>
     callback_url st' = callback_url st \<and>
     last_play st' = started (last_play st) n \<and>
     ticks w1 = Suc (ticks w) \<and> encoded w1 = encoded w \<and> opened w1 = opened w \<and>
     warnings w1 = warnings w \<and> debugs w1 = debugs w \<and>
     map_of ev ''play'' = play_field (last_play st) n \<and>
     timestamp_of ev = isoformat (utcnow e (ticks w)) @ ''Z''"
proof (cases n)
  case (Play_start p)
  show ?thesis unfolding Play_start notify.simps handler_unfolds
    by (intro exI conjI, rule refl) (simp_all add: timestamp_of_def)
next
  case (Runner_start h t)
  show ?thesis unfolding Runner_start notify.simps handler_unfolds
    by (intro exI conjI, rule refl) (simp_all add: timestamp_of_def)
next
  case (Task_start t c)
  show ?thesis unfolding Task_start notify.simps handler_unfolds
    by (intro exI conjI, rule refl) (simp_all add: timestamp_of_def)
next
  case (Handler_task_start t)
  show ?thesis unfolding Handler_task_start notify.simps handler_unfolds
    by (intro exI conjI, rule refl) (simp_all add: timestamp_of_def)
next
  case (Stats s)
  show ?thesis unfolding Stats notify.simps handler_unfolds
    by (intro exI conjI, rule refl) (simp_all add: timestamp_of_def)
next
  case (Runner_ok r)
  show ?thesis unfolding Runner_ok notify.simps handler_unfolds
    by (intro exI conjI, rule refl) (simp_all add: timestamp_of_def)
next
  case (Runner_failed r)
  show ?thesis unfolding Runner_failed notify.simps handler_unfolds
    by (intro exI conjI, rule refl) (simp_all add: timestamp_of_def)
next
  case (Runner_unreachable r)
  show ?thesis unfolding Runner_unreachable notify.simps handler_unfolds
    by (intro exI conjI, rule refl) (simp_all add: timestamp_of_def)
next
  case (Runner_skipped r)
  show ?thesis unfolding Runner_skipped notify.simps handler_unfolds
    by (intro exI conjI, rule refl) (simp_all add: timestamp_of_def)
qed

section \<open>Errors of delivery\<close>

text \<open>
  C2: when the HTTP client raises, in \<open>open_url\<close> or in \<open>response.read()\<close>, \<open>send_msg\<close> returns
  normally with \<open>None\<close>; it has made its one call of the client and has logged exactly one
  more warning, whose text ends with the text of the exception. No exception reaches the
  caller.
\<close>

theorem send_msg_absorbs_transport_error:
  assumes "json_dumps e msg = Inr data"
    and "open_url e (length (opened w)) (callback_url st) data
           [(''Content-type'', ''application/json'')] = Inl x \<or>
         open_url e (length (opened w)) (callback_url st) data
           [(''Content-type'', ''application/json'')] = Inr (Inl x)"
  shows "fst (send_msg e st w msg) = Inr None \<and>
         warnings (snd (send_msg e st w msg)) =
           warnings w @ [''Could not submit message to webhook: '' @ to_text_exc x] \<and>
         opened (snd (send_msg e st w msg)) =
           opened w @ [(callback_url st, data, [(''Content-type'', ''application/json'')])]"
  using send_msg_caught [OF assms] by simp

theorem send_msg_absorbs_transport_error_witness:
  "json_dumps timeout_env [(''type'', JStr ''play_start'')] = Inr ''{}'' \<and>
   open_url timeout_env (length (opened ex_world)) (callback_url init) ''{}''
     [(''Content-type'', ''application/json'')] = Inl (Exception ''timed out'') \<and>
   fst (send_msg timeout_env init ex_world [(''type'', JStr ''play_start'')]) = Inr None \<and>
   warnings (snd (send_msg timeout_env init ex_world [(''type'', JStr ''play_start'')])) =
     [''Could not submit message to webhook: timed out'']"
  using send_msg_absorbs_transport_error
    [of timeout_env "[(''type'', JStr ''play_start'')]" "''{}''" ex_world init "Exception ''timed out''"]
  by (simp add: timeout_env_def ex_world_def)

text \<open>
  C7: when the encoder raises, \<open>send_msg\<close> raises the same exception: nothing is caught,
  the HTTP client is not called, and nothing is logged.
\<close>

theorem send_msg_serialization_error_propagates:
  assumes "json_dumps e msg = Inl x"
  shows "fst (send_msg e st w msg) = Inl x \<and>
         opened (snd (send_msg e st w msg)) = opened w \<and>
         warnings (snd (send_msg e st w msg)) = warnings w \<and>
         debugs (snd (send_msg e st w msg)) = debugs w"
  using send_msg_encoder_raises [OF assms] by simp

theorem send_msg_serialization_error_propagates_witness:
  "json_dumps unencodable_env [(''result'', JObj ''Lock'')] =
     Inl (Exception ''Object is not JSON serializable'') \<and>
   fst (send_msg unencodable_env init ex_world [(''result'', JObj ''Lock'')]) =
     Inl (Exception ''Object is not JSON serializable'') \<and>
   opened (snd (send_msg unencodable_env init ex_world [(''result'', JObj ''Lock'')])) = [] \<and>
   warnings (snd (send_msg unencodable_env init ex_world [(''result'', JObj ''Lock'')])) = []"
  using send_msg_serialization_error_propagates
    [of unencodable_env "[(''result'', JObj ''Lock'')]" "Exception ''Object is not JSON serializable''"
        init ex_world]
  by (simp add: unencodable_env_def ex_world_def)

section \<open>Completion envelopes\<close>

text \<open>
  C1: the \<open>result\<close> mapping of a completion envelope is the engine's payload with the
  outcome's flag set to true (\<open>ok\<close>, \<open>failed\<close>, \<open>skipped\<close>; nothing for \<open>unreachable\<close>) and
  then \<open>action\<close> set to the task's action module. It is stated twice: as the dictionary
  the code builds, and as a mapping, which shows that no other key is added or changed.
\<close>

theorem completion_result_mapping:
  "envelope_result (last_envelope (v2_runner_on_ok e r st w)) =
     Some (dict_set (dict_set (heap w (r_result r)) ''ok'' (JBool True))
             ''action'' (JStr (task_action (r_task r)))) \<and>
   envelope_result (last_envelope (v2_runner_on_failed e r st w)) =
     Some (dict_set (dict_set (heap w (r_result r)) ''failed'' (JBool True))
             ''action'' (JStr (task_action (r_task r)))) \<and>
   envelope_result (last_envelope (v2_runner_on_skipped e r st w)) =
     Some (dict_set (dict_set (heap w (r_result r)) ''skipped'' (JBool True))
             ''action'' (JStr (task_action (r_task r)))) \<and>
   envelope_result (last_envelope (v2_runner_on_unreachable e r st w)) =
     Some (dict_set (heap w (r_result r)) ''action'' (JStr (task_action (r_task r)))) \<and>
   map_option map_of (envelope_result (last_envelope (v2_runner_on_ok e r st w))) =
     Some ((map_of (heap w (r_result r)))
             (''ok'' \<mapsto> JBool True, ''action'' \<mapsto> JStr (task_action (r_task r)))) \<and>
   map_option map_of (envelope_result (last_envelope (v2_runner_on_failed e r st w))) =
     Some ((map_of (heap w (r_result r)))
             (''failed'' \<mapsto> JBool True, ''action'' \<mapsto> JStr (task_action (r_task r)))) \<and>
   map_option map_of (envelope_result (last_envelope (v2_runner_on_skipped e r st w))) =
     Some ((map_of (heap w (r_result r)))
             (''skipped'' \<mapsto> JBool True, ''action'' \<mapsto> JStr (task_action (r_task r)))) \<and>
   map_option map_of (envelope_result (last_envelope (v2_runner_on_unreachable e r st w))) =
     Some ((map_of (heap w (r_result r)))(''action'' \<mapsto> JStr (task_action (r_task r))))"
  by (simp add: handler_unfolds last_envelope_def finish_world encoded_send envelope_result_def
      map_of_dict_set)

text \<open>
  C9: each of the four handlers that the attribute lookup synthesizes is the same function
  as the explicit handler of the outcome table, which calls the shared builder with
  \<open>{}\<close> for \<open>unreachable\<close> and \<open>{name: true}\<close> otherwise.
\<close>

theorem interception_equals_explicit_table:
  "v2_runner_on_ok e = explicit_runner_on e ''ok'' \<and>
   v2_runner_on_failed e = explicit_runner_on e ''failed'' \<and>
   v2_runner_on_skipped e = explicit_runner_on e ''skipped'' \<and>
   v2_runner_on_unreachable e = explicit_runner_on e ''unreachable''"
  by (simp add: fun_eq_iff explicit_runner_on_def outcome_flags_def runner_on_ok_unfold
      runner_on_failed_unfold runner_on_skipped_unfold runner_on_unreachable_unfold)

text \<open>
  C10: a completion handler works on a copy. The engine's payload, an object allocated
  before the call, holds after the call what it held before; the dictionary with the flag
  and \<open>action\<close> is the new object, at another address, and it is the one in the envelope.
\<close>

theorem completion_leaves_engine_payload:
  assumes "completion_of n = Some r" and "r_result r < next_addr w"
  shows "heap (snd (snd (notify e n st w))) (r_result r) = heap w (r_result r) \<and>
         envelope_result (last_envelope (notify e n st w)) =
           Some (heap (snd (snd (notify e n st w))) (next_addr w)) \<and>
         next_addr w \<noteq> r_result r"
  using assms
  by (cases n)
     (simp_all add: handler_unfolds last_envelope_def finish_world encoded_send heap_send
       envelope_result_def)

theorem completion_leaves_engine_payload_witness:
  "completion_of (Runner_failed ex_result) = Some ex_result \<and>
   r_result ex_result < next_addr ex_world \<and>
   heap (snd (snd (notify ex_env (Runner_failed ex_result) ex_callback ex_world)))
     (r_result ex_result) = [(''changed'', JBool False), (''rc'', JInt 0)] \<and>
   envelope_result (last_envelope (notify ex_env (Runner_failed ex_result) ex_callback ex_world)) =
     Some [(''changed'', JBool False), (''rc'', JInt 0), (''failed'', JBool True),
           (''action'', JStr ''command'')]"
  using completion_leaves_engine_payload
    [of "Runner_failed ex_result" ex_result ex_world ex_env ex_callback]
  by (simp add: ex_result_def ex_world_def ex_task_def handler_unfolds heap_send finish_world)

section \<open>The end of the run\<close>

lemma sort_ex_hosts: "sort [''web2'', ''db'', ''web10''] = [''db'', ''web10'', ''web2'']"
  by code_simp

text \<open>
  C4: the \<open>result\<close> mapping of the \<open>playbook_end\<close> envelope has one entry per processed
  host, the host's summary, in ascending order of the host names, whatever the order of
  the hosts in \<open>processed\<close> (whose keys, those of a dictionary, are distinct).
\<close>

theorem playbook_end_hosts_sorted:
  assumes "distinct (keys (processed s))"
  shows "last_envelope (v2_playbook_on_stats e s st w) =
           [(''type'', JStr ''playbook_end''),
            (''end'', JStr (isoformat (utcnow e (ticks w)) @ ''Z'')),
            (''result'', JDict (map (\<lambda>h. (h, summarize s h)) (sort (keys (processed s)))))] \<and>
         map_option keys (envelope_result (last_envelope (v2_playbook_on_stats e s st w))) =
           Some (sort (keys (processed s))) \<and>
         sorted (sort (keys (processed s)))"
proof -
  have "summary_loop s (sort (keys (processed s))) [] =
          [] @ map (\<lambda>h. (h, summarize s h)) (sort (keys (processed s)))"
    using assms by (intro summary_loop_distinct) (simp_all add: keys_def)
  then show ?thesis
    by (simp add: handler_unfolds last_envelope_def finish_world encoded_send envelope_result_def
        keys_def comp_def)
qed

theorem playbook_end_hosts_sorted_witness:
  "distinct (keys (processed ex_stats)) \<and>
   envelope_result (last_envelope (v2_playbook_on_stats ex_env ex_stats ex_callback ex_world)) =
     Some [(''db'', JDict [(''ok'', JInt 2)]), (''web10'', JDict [(''ok'', JInt 5)]),
           (''web2'', JDict [(''ok'', JInt 4)])]"
  using playbook_end_hosts_sorted [of ex_stats ex_env ex_callback ex_world]
  by (simp add: ex_stats_def keys_def sort_ex_hosts envelope_result_def)

section \<open>Sequences of notifications\<close>

lemma notify_encoded:
  "encoded (snd (snd (notify e n st w))) = encoded w @ [last_envelope (notify e n st w)]"
proof -
  obtain st' w1 ev where "notify e n st w = finish st' (send_msg e st' w1 ev)"
    and "encoded w1 = encoded w"
    using notify_shape [of e n st w] by blast
  then show ?thesis
    by (simp add: last_envelope_def finish_world encoded_send)
qed

lemma notify_ticks: "ticks (snd (snd (notify e n st w))) = Suc (ticks w)"
proof -
  obtain st' w1 ev where "notify e n st w = finish st' (send_msg e st' w1 ev)"
    and "ticks w1 = Suc (ticks w)"
    using notify_shape [of e n st w] by blast
  then show ?thesis
    by (simp add: finish_world ticks_send)
qed

lemma notify_last_play: "last_play (fst (snd (notify e n st w))) = started (last_play st) n"
proof -
  obtain st' w1 ev where "notify e n st w = finish st' (send_msg e st' w1 ev)"
    and "last_play st' = started (last_play st) n"
    using notify_shape [of e n st w] by blast
  then show ?thesis
    by (simp add: finish_state)
qed

lemma notify_play_field:
  "map_of (last_envelope (notify e n st w)) ''play'' = play_field (last_play st) n"
proof -
  obtain st' w1 ev where "notify e n st w = finish st' (send_msg e st' w1 ev)"
    and "map_of ev ''play'' = play_field (last_play st) n"
    using notify_shape [of e n st w] by blast
  then show ?thesis
    by (simp add: last_envelope_def finish_world encoded_send)
qed

lemma notify_timestamp:
  "timestamp_of (last_envelope (notify e n st w)) = isoformat (utcnow e (ticks w)) @ ''Z''"
proof -
  obtain st' w1 ev where "notify e n st w = finish st' (send_msg e st' w1 ev)"
    and "timestamp_of ev = isoformat (utcnow e (ticks w)) @ ''Z''"
    using notify_shape [of e n st w] by blast
  then show ?thesis
    by (simp add: last_envelope_def finish_world encoded_send)
qed

lemma run_Cons:
  "run e (n # ns) st w =
     (if isl (fst (notify e n st w)) then notify e n st w
      else run e ns (fst (snd (notify e n st w))) (snd (snd (notify e n st w))))"
  by (cases "notify e n st w") (auto split: sum.splits)

text \<open>What a sequence of notifications leaves behind: the envelopes of the notifications
  that were reached, in order, each with its clock reading and its \<open>play\<close> field.\<close>

lemma run_shape:
  "\<exists>es. encoded (snd (snd (run e ns st w))) = encoded w @ es \<and>
        length es \<le> length ns \<and>
        ticks (snd (snd (run e ns st w))) = ticks w + length es \<and>
        map timestamp_of es =
          map (\<lambda>i. isoformat (utcnow e i) @ ''Z'') [ticks w ..< ticks w + length es] \<and>
        map (\<lambda>ev. map_of ev ''play'') es = take (length es) (expected_play (last_play st) ns) \<and>
        last_play (fst (snd (run e ns st w))) =
          current_play (last_play st) (take (length es) ns) \<and>
        (isl (fst (run e ns st w)) \<or> length es = length ns)"
proof (induction ns arbitrary: st w)
  case Nil
  show ?case by (simp add: current_play_def)
next
  case (Cons n ns)
  let ?out = "notify e n st w"
  let ?ev = "last_envelope ?out"
  show ?case
  proof (cases "isl (fst ?out)")
    case True
    then have "run e (n # ns) st w = ?out" by (subst run_Cons) simp
    with True show ?thesis
      by (intro exI [of _ "[?ev]"])
         (simp add: notify_encoded notify_ticks notify_timestamp notify_play_field
            notify_last_play current_play_def)
  next
    case False
    let ?st = "fst (snd ?out)" and ?w = "snd (snd ?out)"
    have eq: "run e (n # ns) st w = run e ns ?st ?w"
      using False by (subst run_Cons) simp
    obtain es where es:
      "encoded (snd (snd (run e ns ?st ?w))) = encoded ?w @ es"
      "length es \<le> length ns"
      "ticks (snd (snd (run e ns ?st ?w))) = ticks ?w + length es"
      "map timestamp_of es =
         map (\<lambda>i. isoformat (utcnow e i) @ ''Z'') [ticks ?w ..< ticks ?w + length es]"
      "map (\<lambda>ev. map_of ev ''play'') es = take (length es) (expected_play (last_play ?st) ns)"
      "last_play (fst (snd (run e ns ?st ?w))) =
         current_play (last_play ?st) (take (length es) ns)"
      "isl (fst (run e ns ?st ?w)) \<or> length es = length ns"
      using Cons.IH [of ?st ?w] by blast
    have upt: "[ticks w ..< ticks w + length (?ev # es)] =
                 ticks w # [ticks ?w ..< ticks ?w + length es]"
      by (simp add: notify_ticks upt_conv_Cons del: upt_Suc)
    show ?thesis
    proof (intro exI [of _ "?ev # es"] conjI)
      show "encoded (snd (snd (run e (n # ns) st w))) = encoded w @ ?ev # es"
        by (subst eq) (simp add: es(1) notify_encoded)
      show "length (?ev # es) \<le> length (n # ns)"
        using es(2) by simp
      show "ticks (snd (snd (run e (n # ns) st w))) = ticks w + length (?ev # es)"
        by (subst eq) (simp add: es(3) notify_ticks)
      show "map timestamp_of (?ev # es) =
              map (\<lambda>i. isoformat (utcnow e i) @ ''Z'') [ticks w ..< ticks w + length (?ev # es)]"
        by (simp only: upt list.map es(4) notify_timestamp)
      show "map (\<lambda>ev. map_of ev ''play'') (?ev # es) =
              take (length (?ev # es)) (expected_play (last_play st) (n # ns))"
        by (simp add: es(5) notify_play_field notify_last_play)
      show "last_play (fst (snd (run e (n # ns) st w))) =
              current_play (last_play st) (take (length (?ev # es)) (n # ns))"
        by (subst eq) (simp add: es(6) notify_last_play current_play_def)
      show "isl (fst (run e (n # ns) st w)) \<or> length (?ev # es) = length (n # ns)"
        using es(7) by (subst eq) simp
    qed
  qed
qed

lemma run_timestamps:
  "\<exists>k \<le> length ns.
     ticks (snd (snd (run e ns st w))) = ticks w + k \<and>
     timestamps w (run e ns st w) =
       map (\<lambda>i. isoformat (utcnow e i) @ ''Z'') [ticks w ..< ticks w + k]"
proof -
  obtain es where "encoded (snd (snd (run e ns st w))) = encoded w @ es"
    and "length es \<le> length ns"
    and "ticks (snd (snd (run e ns st w))) = ticks w + length es"
    and "map timestamp_of es =
          map (\<lambda>i. isoformat (utcnow e i) @ ''Z'') [ticks w ..< ticks w + length es]"
    using run_shape [of e ns st w] by blast
  then show ?thesis
    by (intro exI [of _ "length es"]) (simp add: timestamps_def new_envelopes_def)
qed

section \<open>The current play\<close>

text \<open>
  The handler of the end of the run is one of the handlers other than the play start, and
  the envelope it builds has no \<open>play\<close> field, whatever the current play is.
\<close>

theorem playbook_end_has_no_play_field_counterexample:
  "last_play (ex_callback\<lparr>last_play := Some ''abc-123''\<rparr>) = Some ''abc-123'' \<and>
   map_of (last_envelope (v2_playbook_on_stats ex_env ex_stats
             (ex_callback\<lparr>last_play := Some ''abc-123''\<rparr>) ex_world)) ''play'' = None"
  by (simp add: stats_unfold last_envelope_def finish_world encoded_send)

text \<open>
  C5, as the code has it: only the play start changes the current play, to the started
  play's identifier; every task handler (a host starting a task, a task start, a handler
  task start, the four completions) puts the current value in the \<open>play\<close> field of its
  envelope, and the envelopes of a play start and of the end of the run have no such
  field. Along any sequence of notifications the \<open>play\<close> fields are therefore those of the
  most recently started play, and the field holds that play at the end; a sequence that
  returns normally has handled every notification.
\<close>

theorem current_play_field:
  "last_play (fst (snd (notify e n st w))) = started (last_play st) n \<and>
   map_of (last_envelope (notify e n st w)) ''play'' = play_field (last_play st) n \<and>
   map (\<lambda>ev. map_of ev ''play'') (new_envelopes w (run e ns st w)) =
     take (length (new_envelopes w (run e ns st w))) (expected_play (last_play st) ns) \<and>
   last_play (fst (snd (run e ns st w))) =
     current_play (last_play st) (take (length (new_envelopes w (run e ns st w))) ns) \<and>
   (isl (fst (run e ns st w)) \<or> length (new_envelopes w (run e ns st w)) = length ns)"
proof -
  obtain es where "encoded (snd (snd (run e ns st w))) = encoded w @ es"
    and "map (\<lambda>ev. map_of ev ''play'') es = take (length es) (expected_play (last_play st) ns)"
    and "last_play (fst (snd (run e ns st w))) =
           current_play (last_play st) (take (length es) ns)"
    and "isl (fst (run e ns st w)) \<or> length es = length ns"
    using run_shape [of e ns st w] by blast
  then show ?thesis
    by (simp add: new_envelopes_def notify_last_play notify_play_field)
qed

section \<open>The play start\<close>

lemma isoformat_ex_clock:
  "isoformat (ex_clock 0) = ''2024-01-01T00:00:00''"
  "isoformat (ex_clock (Suc 0)) = ''2024-01-01T00:00:00.000001''"
  by code_simp+

text \<open>
  At 2024-01-01 00:00:00 exactly, the microsecond is 0 and \<open>isoformat\<close> writes no fraction:
  the envelope of play \<open>deploy\<close> is not the one with \<open>2024-01-01T00:00:00.000000Z\<close>.
\<close>

theorem play_start_example_counterexample:
  "utcnow ex_env (ticks ex_world) =
     \<lparr>year = 2024, month = 1, day = 1, hour = 0, minute = 0, second = 0, microsecond = 0\<rparr> \<and>
   last_envelope (v2_playbook_on_play_start ex_env ex_play ex_callback ex_world) \<noteq>
     [(''type'', JStr ''play_start''), (''id'', JStr ''abc-123''),
      (''start'', JStr ''2024-01-01T00:00:00.000000Z''), (''name'', JStr ''deploy'')]"
  using isoformat_ex_clock(1)
  by (simp add: play_start_unfold last_envelope_def finish_world encoded_send ex_env_def
      ex_world_def ex_play_def ex_clock_def)

text \<open>
  C8, as the code has it: the envelope of a play start has exactly the keys \<open>type\<close>, \<open>id\<close>,
  \<open>start\<close>, \<open>name\<close>, with the play's uuid (which becomes the current play) and its name;
  its encoding is what is posted. Play \<open>deploy\<close> with uuid \<open>abc-123\<close> at 2024-01-01 00:00:00
  gives the \<open>start\<close> \<open>2024-01-01T00:00:00Z\<close>.
\<close>

theorem play_start_envelope:
  "last_envelope (v2_playbook_on_play_start e p st w) =
     [(''type'', JStr ''play_start''), (''id'', JStr (play_uuid p)),
      (''start'', JStr (isoformat (utcnow e (ticks w)) @ ''Z'')), (''name'', JStr (play_name p))] \<and>
   keys (last_envelope (v2_playbook_on_play_start e p st w)) =
     [''type'', ''id'', ''start'', ''name''] \<and>
   last_play (fst (snd (v2_playbook_on_play_start e p st w))) = Some (play_uuid p) \<and>
   (json_dumps e (last_envelope (v2_playbook_on_play_start e p st w)) = Inr data \<longrightarrow>
    opened (snd (snd (v2_playbook_on_play_start e p st w))) =
      opened w @ [(callback_url st, data, [(''Content-type'', ''application/json'')])])"
  by (simp add: play_start_unfold last_envelope_def finish_world finish_state encoded_send
      opened_send keys_def)

theorem play_start_envelope_witness:
  "json_dumps ex_env (last_envelope (v2_playbook_on_play_start ex_env ex_play ex_callback ex_world))
     = Inr ''{}'' \<and>
   last_envelope (v2_playbook_on_play_start ex_env ex_play ex_callback ex_world) =
     [(''type'', JStr ''play_start''), (''id'', JStr ''abc-123''),
      (''start'', JStr ''2024-01-01T00:00:00Z''), (''name'', JStr ''deploy'')] \<and>
   last_play (fst (snd (v2_playbook_on_play_start ex_env ex_play ex_callback ex_world))) =
     Some ''abc-123'' \<and>
   opened (snd (snd (v2_playbook_on_play_start ex_env ex_play ex_callback ex_world))) =
     [(Some ''http://hook'', ''{}'', [(''Content-type'', ''application/json'')])]"
  using play_start_envelope [of ex_env ex_play ex_callback ex_world "''{}''"] isoformat_ex_clock(1)
  by (simp add: ex_env_def ex_world_def ex_play_def ex_callback_def)

section \<open>An absent URL\<close>

lemma set_options_base_raises:
  "base_set_options e = Inl x \<Longrightarrow> set_options e st w = (Inl x, st, w)"
  by (simp add: set_options_def)

lemma set_options_required_unset:
  "set_options required_env init ex_world =
     (Inl (Exception ''No setting was provided for required configuration''), init, ex_world)"
  by (simp add: set_options_base_raises required_env_def)


lemma set_options_present:
  "base_set_options e = Inr () \<Longrightarrow> get_option e ''json_webhook_url'' = Some u \<Longrightarrow>
   set_options e st w = (Inr (), st\<lparr>callback_url := Some u\<rparr>, w)"
  by (simp add: set_options_def)


lemma send_callback_enabled: "\<not> disabled st \<Longrightarrow> send_callback e n st w = notify e n st w"
  by (simp add: send_callback_def)



section \<open>Timestamps\<close>

declare dec.simps [simp del]

lemma below_ten: "k < (10::nat) \<Longrightarrow> k \<in> set [0, 1, 2, 3, 4, 5, 6, 7, 8, 9]"
  by (simp only: set_simps insert_iff empty_iff) arith

lemma digit_is_digit: "matches_pat Digit (digit n)"
proof -
  have "n mod 10 < length ''0123456789''" by simp
  then have "''0123456789'' ! (n mod 10) \<in> set ''0123456789''" by (rule nth_mem)
  then show ?thesis by (simp only: digit_def matches_pat.simps)
qed

lemma digit_val_digit: "digit_val (digit n) = n mod 10"
proof -
  have "n mod 10 \<in> set [0, 1, 2, 3, 4, 5, 6, 7, 8, 9]"
    by (rule below_ten) simp
  then show ?thesis
    by (auto simp: digit_def digit_val_def)
qed

lemma dec_digits: "list_all (matches_pat Digit) (dec n)"
proof (induction n rule: dec.induct)
  case (1 n)
  show ?case
  proof (cases "n < 10")
    case True
    then show ?thesis by (subst dec.simps) (simp add: digit_is_digit del: matches_pat.simps)
  next
    case False
    with 1 show ?thesis by (subst dec.simps) (simp add: digit_is_digit del: matches_pat.simps)
  qed
qed

lemma undec_snoc: "undec (s @ [c]) = 10 * undec s + digit_val c"
  by (simp add: undec_def)

lemma undec_dec: "undec (dec n) = n"
proof (induction n rule: dec.induct)
  case (1 n)
  show ?case
  proof (cases "n < 10")
    case True
    then show ?thesis by (subst dec.simps) (simp add: undec_def digit_val_digit)
  next
    case False
    with 1 show ?thesis by (subst dec.simps) (simp add: undec_snoc digit_val_digit)
  qed
qed

lemma length_dec: "n < 10 ^ k \<Longrightarrow> 0 < k \<Longrightarrow> length (dec n) \<le> k"
proof (induction k arbitrary: n)
  case 0
  then show ?case by simp
next
  case (Suc k)
  show ?case
  proof (cases "n < 10")
    case True
    then show ?thesis by (subst dec.simps) simp
  next
    case False
    with Suc.prems have "0 < k" by (cases k) auto
    moreover from Suc.prems have "n div 10 < 10 ^ k" by (simp add: less_mult_imp_div_less mult.commute)
    ultimately have "length (dec (n div 10)) \<le> k" by (rule Suc.IH [rotated])
    with False show ?thesis by (subst dec.simps) simp
  qed
qed

lemma undec_zeros: "undec (replicate k CHR ''0'' @ s) = undec s"
  by (induction k) (simp_all add: undec_def digit_val_def)

lemma length_fmt0: "n < 10 ^ k \<Longrightarrow> 0 < k \<Longrightarrow> length (fmt0 k n) = k"
  using length_dec [of n k] by (simp add: fmt0_def)

lemma zeros_digits: "list_all (matches_pat Digit) (replicate k CHR ''0'')"
  by (induction k) simp_all

lemma fmt0_digits: "list_all (matches_pat Digit) (fmt0 k n)"
  by (simp add: fmt0_def dec_digits zeros_digits del: matches_pat.simps)

lemma undec_fmt0: "undec (fmt0 k n) = n"
  by (simp add: fmt0_def undec_zeros undec_dec)


lemma digits_match:
  "length s = k \<Longrightarrow> list_all (matches_pat Digit) s \<Longrightarrow> list_all2 matches_pat (replicate k Digit) s"
  by (simp add: list_all2_conv_all_nth list_all_length del: matches_pat.simps)

lemma fmt0_matches: "n < 10 ^ k \<Longrightarrow> 0 < k \<Longrightarrow> list_all2 matches_pat (replicate k Digit) (fmt0 k n)"
  by (rule digits_match) (simp_all add: length_fmt0 fmt0_digits del: matches_pat.simps)

lemma seconds_pattern_parts:
  "seconds_pattern =
     replicate 4 Digit @ [Lit CHR ''-''] @ replicate 2 Digit @ [Lit CHR ''-''] @
     replicate 2 Digit @ [Lit CHR ''T''] @ replicate 2 Digit @ [Lit CHR '':''] @
     replicate 2 Digit @ [Lit CHR '':''] @ replicate 2 Digit"
  by (simp add: seconds_pattern_def eval_nat_numeral)

lemma fraction_pattern_parts: "fraction_pattern = [Lit CHR ''.''] @ replicate 6 Digit"
  by (simp add: fraction_pattern_def eval_nat_numeral)

lemma lit_matches: "list_all2 matches_pat [Lit c] [c]"
  by simp

lemma seconds_match:
  assumes "list_all2 matches_pat (replicate 4 Digit) Y" "list_all2 matches_pat (replicate 2 Digit) M"
    "list_all2 matches_pat (replicate 2 Digit) D" "list_all2 matches_pat (replicate 2 Digit) h"
    "list_all2 matches_pat (replicate 2 Digit) m" "list_all2 matches_pat (replicate 2 Digit) s"
  shows "list_all2 matches_pat seconds_pattern
           (Y @ ''-'' @ M @ ''-'' @ D @ ''T'' @ h @ '':'' @ m @ '':'' @ s)"
  unfolding seconds_pattern_parts
  by (intro list_all2_appendI assms lit_matches)

lemma isoformat_seconds:
  "isoformat d =
     (fmt0 4 (year d) @ ''-'' @ fmt0 2 (month d) @ ''-'' @ fmt0 2 (day d) @ ''T'' @
      fmt0 2 (hour d) @ '':'' @ fmt0 2 (minute d) @ '':'' @ fmt0 2 (second d)) @
     (if microsecond d = 0 then [] else ''.'' @ fmt0 6 (microsecond d))"
  by (simp add: isoformat_def)

lemma current_time_matches:
  assumes "valid_datetime d"
  shows "timestamp_pattern (isoformat d @ ''Z'')"
proof -
  let ?s = "fmt0 4 (year d) @ ''-'' @ fmt0 2 (month d) @ ''-'' @ fmt0 2 (day d) @ ''T'' @
      fmt0 2 (hour d) @ '':'' @ fmt0 2 (minute d) @ '':'' @ fmt0 2 (second d)"
  from assms have sec: "list_all2 matches_pat seconds_pattern ?s"
    by (intro seconds_match fmt0_matches) (simp_all add: valid_datetime_def)
  show ?thesis
  proof (cases "microsecond d = 0")
    case True
    have "list_all2 matches_pat (seconds_pattern @ [Lit CHR ''Z'']) (?s @ ''Z'')"
      by (intro list_all2_appendI sec lit_matches)
    with True show ?thesis
      by (simp only: timestamp_pattern_def isoformat_seconds if_True append_Nil2)
        (simp del: matches_pat.simps)
  next
    case False
    from assms have "list_all2 matches_pat (replicate 6 Digit) (fmt0 6 (microsecond d))"
      by (intro fmt0_matches) (simp_all add: valid_datetime_def)
    then have "list_all2 matches_pat (seconds_pattern @ fraction_pattern @ [Lit CHR ''Z''])
                 (?s @ (''.'' @ fmt0 6 (microsecond d)) @ ''Z'')"
      unfolding fraction_pattern_parts
      by (intro list_all2_appendI sec lit_matches)
    with False show ?thesis
      by (simp only: timestamp_pattern_def isoformat_seconds if_False append_assoc) simp
  qed
qed

lemma fields_of_seconds:
  assumes "length Y = 4" "length M = 2" "length D = 2" "length h = 2" "length m = 2"
    "length s = 2"
  shows "timestamp_fields (Y @ ''-'' @ M @ ''-'' @ D @ ''T'' @ h @ '':'' @ m @ '':'' @ s @ ''Z'') =
           [undec Y, undec M, undec D, undec h, undec m, undec s, 0]"
  by (simp add: timestamp_fields_def assms)

lemma fields_of_fraction:
  assumes "length Y = 4" "length M = 2" "length D = 2" "length h = 2" "length m = 2"
    "length s = 2" "length F = 6"
  shows "timestamp_fields
           (Y @ ''-'' @ M @ ''-'' @ D @ ''T'' @ h @ '':'' @ m @ '':'' @ s @ ''.'' @ F @ ''Z'') =
           [undec Y, undec M, undec D, undec h, undec m, undec s, undec F]"
  by (simp add: timestamp_fields_def assms)

lemma current_time_fields:
  assumes "valid_datetime d"
  shows "timestamp_fields (isoformat d @ ''Z'') = datetime_fields d"
proof -
  from assms have len:
    "length (fmt0 4 (year d)) = 4" "length (fmt0 2 (month d)) = 2" "length (fmt0 2 (day d)) = 2"
    "length (fmt0 2 (hour d)) = 2" "length (fmt0 2 (minute d)) = 2"
    "length (fmt0 2 (second d)) = 2" "length (fmt0 6 (microsecond d)) = 6"
    by (simp_all add: valid_datetime_def length_fmt0)
  show ?thesis
  proof (cases "microsecond d = 0")
    case True
    then show ?thesis
      using fields_of_seconds [OF len(1-6)]
      by (simp add: isoformat_def datetime_fields_def undec_fmt0)
  next
    case False
    then show ?thesis
      using fields_of_fraction [OF len]
      by (simp add: isoformat_def datetime_fields_def undec_fmt0)
  qed
qed

lemma isoformat_stepped_back_clock:
  "isoformat (stepped_back_clock 0) = ''2024-01-01T00:00:01''"
  "isoformat (stepped_back_clock (Suc 0)) = ''2024-01-01T00:00:00''"
  by code_simp+

lemma ex_run_timestamps:
  "timestamps ex_world (run ex_env [Play_start ex_play, Task_start ex_task False] ex_callback ex_world)
     = [''2024-01-01T00:00:00Z'', ''2024-01-01T00:00:00.000001Z'']"
  by (simp add: timestamps_def new_envelopes_def handler_unfolds finish_def send_msg_def
      display_debug_def display_warning_def ex_env_def ex_world_def ex_callback_def
      ex_open_url_def timestamp_of_def isoformat_ex_clock)

lemma ex_run_readings:
  "readings ex_env ex_world
     (run ex_env [Play_start ex_play, Task_start ex_task False] ex_callback ex_world) =
     [ex_clock 0, ex_clock (Suc 0)]"
  by (simp add: readings_def handler_unfolds finish_def send_msg_def display_debug_def
      display_warning_def ex_env_def ex_world_def ex_callback_def ex_open_url_def upt_conv_Cons)

lemma stepped_back_run_timestamps:
  "timestamps ex_world
     (run stepped_back_env [Play_start ex_play, Task_start ex_task False] ex_callback ex_world)
     = [''2024-01-01T00:00:01Z'', ''2024-01-01T00:00:00Z'']"
  by (simp add: timestamps_def new_envelopes_def handler_unfolds finish_def send_msg_def
      display_debug_def display_warning_def stepped_back_env_def ex_world_def ex_callback_def
      ex_open_url_def timestamp_of_def isoformat_stepped_back_clock)

text \<open>
  A wall clock that is set back between two notifications gives a later envelope the
  earlier timestamp. And with a clock that only advances, the timestamp of a whole second
  is, as a string, greater than those of the fractions that follow it.
\<close>

theorem timestamps_not_ordered_counterexample:
  "timestamps ex_world
     (run stepped_back_env [Play_start ex_play, Task_start ex_task False] ex_callback ex_world) =
     [''2024-01-01T00:00:01Z'', ''2024-01-01T00:00:00Z''] \<and>
   \<not> sorted (timestamps ex_world
     (run stepped_back_env [Play_start ex_play, Task_start ex_task False] ex_callback ex_world)) \<and>
   \<not> sorted (map timestamp_fields (timestamps ex_world
     (run stepped_back_env [Play_start ex_play, Task_start ex_task False] ex_callback ex_world))) \<and>
   timestamps ex_world
     (run ex_env [Play_start ex_play, Task_start ex_task False] ex_callback ex_world) =
     [''2024-01-01T00:00:00Z'', ''2024-01-01T00:00:00.000001Z''] \<and>
   \<not> sorted (timestamps ex_world
     (run ex_env [Play_start ex_play, Task_start ex_task False] ex_callback ex_world))"
  unfolding stepped_back_run_timestamps ex_run_timestamps
  by (simp add: timestamp_fields_def undec_def digit_val_def)

text \<open>
  C6, as the code has it: each handler reads the wall clock once, when it builds its
  envelope, and the timestamp is the ISO form of that reading with \<open>Z\<close> appended. So the
  timestamps of a sequence of notifications are those of the successive readings, each
  matches \<open>YYYY-MM-DDTHH:MM:SS(.ffffff)?Z\<close>, each denotes its reading, and the instants they
  denote are in order whenever the readings are.
\<close>

theorem timestamps_follow_clock:
  assumes "list_all valid_datetime (map (utcnow e) [ticks w ..< ticks w + length ns])"
  shows "timestamps w (run e ns st w) =
           map (\<lambda>d. isoformat d @ ''Z'') (readings e w (run e ns st w)) \<and>
         list_all timestamp_pattern (timestamps w (run e ns st w)) \<and>
         map timestamp_fields (timestamps w (run e ns st w)) =
           map datetime_fields (readings e w (run e ns st w)) \<and>
         (sorted (map datetime_fields (readings e w (run e ns st w))) \<longrightarrow>
          sorted (map timestamp_fields (timestamps w (run e ns st w))))"
proof -
  obtain k where k: "k \<le> length ns" "ticks (snd (snd (run e ns st w))) = ticks w + k"
    "timestamps w (run e ns st w) =
       map (\<lambda>i. isoformat (utcnow e i) @ ''Z'') [ticks w ..< ticks w + k]"
    using run_timestamps [of ns e st w] by blast
  have valid: "valid_datetime (utcnow e i)" if "i \<in> set [ticks w ..< ticks w + k]" for i
    using assms that k(1) by (auto simp: list_all_iff)
  have ts: "timestamps w (run e ns st w) =
              map (\<lambda>d. isoformat d @ ''Z'') (readings e w (run e ns st w))"
    by (simp add: k readings_def comp_def)
  have pat: "list_all timestamp_pattern (timestamps w (run e ns st w))"
    unfolding k(3) list_all_iff using valid by (auto intro: current_time_matches)
  have fields: "map timestamp_fields (timestamps w (run e ns st w)) =
                  map datetime_fields (readings e w (run e ns st w))"
    unfolding k(3) readings_def k(2) map_map
    by (rule map_cong [OF refl]) (simp add: current_time_fields valid)
  have "sorted (map datetime_fields (readings e w (run e ns st w))) \<longrightarrow>
        sorted (map timestamp_fields (timestamps w (run e ns st w)))"
    unfolding fields by simp
  with ts pat fields show ?thesis by (intro conjI)
qed

theorem timestamps_follow_clock_witness:
  "list_all valid_datetime
     (map (utcnow ex_env)
        [ticks ex_world ..<
         ticks ex_world + length [Play_start ex_play, Task_start ex_task False]]) \<and>
   timestamps ex_world
     (run ex_env [Play_start ex_play, Task_start ex_task False] ex_callback ex_world) =
     [''2024-01-01T00:00:00Z'', ''2024-01-01T00:00:00.000001Z''] \<and>
   list_all timestamp_pattern [''2024-01-01T00:00:00Z'', ''2024-01-01T00:00:00.000001Z''] \<and>
   map datetime_fields (readings ex_env ex_world
     (run ex_env [Play_start ex_play, Task_start ex_task False] ex_callback ex_world)) =
     [[2024, 1, 1, 0, 0, 0, 0], [2024, 1, 1, 0, 0, 0, 1]] \<and>
   sorted (map timestamp_fields (timestamps ex_world
     (run ex_env [Play_start ex_play, Task_start ex_task False] ex_callback ex_world)))"
proof -
  have h: "list_all valid_datetime
     (map (utcnow ex_env)
        [ticks ex_world ..<
         ticks ex_world + length [Play_start ex_play, Task_start ex_task False]])"
    by (simp add: ex_env_def ex_world_def ex_clock_def valid_datetime_def upt_conv_Cons)
  show ?thesis
    using timestamps_follow_clock [OF h, of ex_callback] h
    unfolding ex_run_timestamps ex_run_readings
    by (simp add: timestamp_fields_def undec_def digit_val_def datetime_fields_def ex_clock_def)
qed

end
